theory Spec2Isabelle
  imports Complex_Main "HOL-Library.Word" "HOL-Library.Sublist"
begin

section \<open>JavaScript numbers\<close>

text \<open>
  The screen computes with JavaScript numbers. A number is modelled as one of the three
  special values or a finite value carried as an exact real: arithmetic on finite values
  is exact (no rounding to double precision, so no overflow and no underflow), while the
  special values follow the rules of the language: an undefined operation such as
  \<open>0 / 0\<close> or \<open>Infinity - Infinity\<close> is \<open>NaN\<close>, \<open>NaN\<close> propagates through
  every operation, and every comparison with \<open>NaN\<close> is false. The two zeros of the
  language are one value here.

  The exactness is a simplification: the language rounds every finite result to double
  precision, and a property of the rounded values (an inequality or an equation between
  two computed amounts) cannot be read off this model. The theorems below therefore keep
  finite results as terms, or use them where double precision is exact as well (zero,
  one, small integers and their halves) or where only their sign matters, and otherwise
  rest on the special values.
\<close>

datatype number = NaN | PosInf | NegInf | Fin real

fun isNaN :: "number \<Rightarrow> bool" where
  "isNaN NaN = True"
| "isNaN _ = False"

fun num_neg :: "number \<Rightarrow> number" where
  "num_neg NaN = NaN"
| "num_neg PosInf = NegInf"
| "num_neg NegInf = PosInf"
| "num_neg (Fin x) = Fin (- x)"

fun num_add :: "number \<Rightarrow> number \<Rightarrow> number" where
  "num_add NaN _ = NaN"
| "num_add _ NaN = NaN"
| "num_add PosInf NegInf = NaN"
| "num_add NegInf PosInf = NaN"
| "num_add PosInf _ = PosInf"
| "num_add NegInf _ = NegInf"
| "num_add (Fin x) PosInf = PosInf"
| "num_add (Fin x) NegInf = NegInf"
| "num_add (Fin x) (Fin y) = Fin (x + y)"

definition num_sub :: "number \<Rightarrow> number \<Rightarrow> number" where
  "num_sub a b = num_add a (num_neg b)"

text \<open>The infinity with the sign of a non-zero real.\<close>

definition signed_inf :: "real \<Rightarrow> number" where
  "signed_inf x = (if 0 < x then PosInf else NegInf)"

fun num_mul :: "number \<Rightarrow> number \<Rightarrow> number" where
  "num_mul NaN _ = NaN"
| "num_mul _ NaN = NaN"
| "num_mul PosInf PosInf = PosInf"
| "num_mul PosInf NegInf = NegInf"
| "num_mul NegInf PosInf = NegInf"
| "num_mul NegInf NegInf = PosInf"
| "num_mul PosInf (Fin y) = (if y = 0 then NaN else signed_inf y)"
| "num_mul NegInf (Fin y) = (if y = 0 then NaN else signed_inf (- y))"
| "num_mul (Fin x) PosInf = (if x = 0 then NaN else signed_inf x)"
| "num_mul (Fin x) NegInf = (if x = 0 then NaN else signed_inf (- x))"
| "num_mul (Fin x) (Fin y) = Fin (x * y)"

text \<open>
  Division: a finite non-zero value divided by zero is an infinity, and zero divided by
  zero is \<open>NaN\<close>. With one zero only, the divisor zero counts as positive; the program
  divides by the constants 12 and 100 and by the monthly rate, and whenever that rate is
  zero the dividend is zero or \<open>NaN\<close> as well, so the sign of a zero never decides a result.
\<close>

fun num_div :: "number \<Rightarrow> number \<Rightarrow> number" where
  "num_div NaN _ = NaN"
| "num_div _ NaN = NaN"
| "num_div PosInf PosInf = NaN"
| "num_div PosInf NegInf = NaN"
| "num_div NegInf PosInf = NaN"
| "num_div NegInf NegInf = NaN"
| "num_div PosInf (Fin y) = (if 0 \<le> y then PosInf else NegInf)"
| "num_div NegInf (Fin y) = (if 0 \<le> y then NegInf else PosInf)"
| "num_div (Fin x) PosInf = Fin 0"
| "num_div (Fin x) NegInf = Fin 0"
| "num_div (Fin x) (Fin y) =
     (if y = 0 then (if x = 0 then NaN else signed_inf x) else Fin (x / y))"

fun num_lt :: "number \<Rightarrow> number \<Rightarrow> bool" where
  "num_lt NaN _ = False"
| "num_lt _ NaN = False"
| "num_lt PosInf _ = False"
| "num_lt NegInf NegInf = False"
| "num_lt NegInf _ = True"
| "num_lt (Fin x) PosInf = True"
| "num_lt (Fin x) NegInf = False"
| "num_lt (Fin x) (Fin y) = (x < y)"

fun num_le :: "number \<Rightarrow> number \<Rightarrow> bool" where
  "num_le NaN _ = False"
| "num_le _ NaN = False"
| "num_le PosInf PosInf = True"
| "num_le PosInf _ = False"
| "num_le NegInf _ = True"
| "num_le (Fin x) PosInf = True"
| "num_le (Fin x) NegInf = False"
| "num_le (Fin x) (Fin y) = (x \<le> y)"

subsection \<open>Math.pow\<close>

definition is_integral :: "real \<Rightarrow> bool" where
  "is_integral e \<longleftrightarrow> e = of_int \<lfloor>e\<rfloor>"

definition is_odd_integral :: "real \<Rightarrow> bool" where
  "is_odd_integral e \<longleftrightarrow> is_integral e \<and> odd \<lfloor>e\<rfloor>"

text \<open>
  The exact power of a finite non-zero base: the real power for a positive base, the
  integer power for a negative base (asked for at integral exponents only).
\<close>

definition real_pow :: "real \<Rightarrow> real \<Rightarrow> real" where
  "real_pow x e = (if 0 < x then x powr e else power_int x \<lfloor>e\<rfloor>)"

text \<open>
  \<open>Math.pow(base, exponent)\<close>, in the order of the cases of the language definition:
  a \<open>NaN\<close> exponent, a zero exponent, a \<open>NaN\<close> base, an infinite base, a zero base, an
  infinite exponent, a negative base with a fractional exponent, and the ordinary power.
\<close>

fun Math_pow :: "number \<Rightarrow> number \<Rightarrow> number" where
  "Math_pow b NaN = NaN"
| "Math_pow b (Fin e) =
     (if e = 0 then Fin 1
      else case b of
        NaN \<Rightarrow> NaN
      | PosInf \<Rightarrow> (if 0 < e then PosInf else Fin 0)
      | NegInf \<Rightarrow>
          (if 0 < e then (if is_odd_integral e then NegInf else PosInf) else Fin 0)
      | Fin x \<Rightarrow>
          (if x = 0 then (if 0 < e then Fin 0 else PosInf)
           else if x < 0 \<and> \<not> is_integral e then NaN
           else Fin (real_pow x e)))"
| "Math_pow b PosInf =
     (case b of
        NaN \<Rightarrow> NaN
      | PosInf \<Rightarrow> PosInf
      | NegInf \<Rightarrow> PosInf
      | Fin x \<Rightarrow>
          (if x = 0 then Fin 0
           else if 1 < \<bar>x\<bar> then PosInf
           else if \<bar>x\<bar> = 1 then NaN
           else Fin 0))"
| "Math_pow b NegInf =
     (case b of
        NaN \<Rightarrow> NaN
      | PosInf \<Rightarrow> Fin 0
      | NegInf \<Rightarrow> Fin 0
      | Fin x \<Rightarrow>
          (if x = 0 then PosInf
           else if 1 < \<bar>x\<bar> then Fin 0
           else if \<bar>x\<bar> = 1 then NaN
           else PosInf))"

section \<open>Strings and parseFloat\<close>

text \<open>A string is a sequence of 16-bit code units.\<close>

type_synonym jschar = "16 word"
type_synonym jsstring = "jschar list"

text \<open>The code units of an ASCII literal.\<close>

definition js :: "string \<Rightarrow> jsstring" where
  "js s = map (\<lambda>c. of_nat (of_char c)) s"

text \<open>White space and line terminators, which \<open>parseFloat\<close> skips at the start.\<close>

definition isWhiteSpace :: "jschar \<Rightarrow> bool" where
  "isWhiteSpace c \<longleftrightarrow>
     c = 0x09 \<or> c = 0x0A \<or> c = 0x0B \<or> c = 0x0C \<or> c = 0x0D \<or> c = 0x20 \<or> c = 0xA0 \<or>
     c = 0x1680 \<or> (0x2000 \<le> c \<and> c \<le> 0x200A) \<or> c = 0x2028 \<or> c = 0x2029 \<or>
     c = 0x202F \<or> c = 0x205F \<or> c = 0x3000 \<or> c = 0xFEFF"

definition isDigit :: "jschar \<Rightarrow> bool" where
  "isDigit c \<longleftrightarrow> 0x30 \<le> c \<and> c \<le> 0x39"

definition digitVal :: "jschar \<Rightarrow> nat" where
  "digitVal c = unat c - 48"

text \<open>The value of a run of decimal digits; the empty run has the value 0.\<close>

definition digitsVal :: "jsstring \<Rightarrow> nat" where
  "digitsVal ds = foldl (\<lambda>a c. 10 * a + digitVal c) 0 ds"

text \<open>
  The exponent part at the start of a string: \<open>e\<close> or \<open>E\<close>, an optional sign and at
  least one digit. Where there is none (or it is incomplete) the exponent is 0.
\<close>

definition exponentPart :: "jsstring \<Rightarrow> int" where
  "exponentPart r =
     (case r of
        [] \<Rightarrow> 0
      | c # r' \<Rightarrow>
          if c = 0x65 \<or> c = 0x45 then
            (case r' of
               [] \<Rightarrow> 0
             | d # r'' \<Rightarrow>
                 if d = 0x2B then int (digitsVal (takeWhile isDigit r''))
                 else if d = 0x2D then - int (digitsVal (takeWhile isDigit r''))
                 else int (digitsVal (takeWhile isDigit r')))
          else 0)"

definition scale10 :: "real \<Rightarrow> int \<Rightarrow> real" where
  "scale10 m e = (if 0 \<le> e then m * 10 ^ nat e else m / 10 ^ nat (- e))"

text \<open>
  The longest prefix that is an unsigned decimal literal: \<open>Infinity\<close>, or digits with
  an optional fraction and exponent, or a point followed by digits and an optional
  exponent. No such prefix gives \<open>NaN\<close>. The value is the exact decimal value.
\<close>

definition parseUnsigned :: "jsstring \<Rightarrow> number" where
  "parseUnsigned t =
     (if take 8 t = js ''Infinity'' then PosInf
      else
        let ip = takeWhile isDigit t;
            r1 = dropWhile isDigit t;
            fp = (case r1 of [] \<Rightarrow> [] | c # r \<Rightarrow> if c = 0x2E then takeWhile isDigit r else []);
            r2 = (case r1 of [] \<Rightarrow> [] | c # r \<Rightarrow> if c = 0x2E then dropWhile isDigit r else r1)
        in if ip = [] \<and> fp = [] then NaN
           else Fin (scale10 (real (digitsVal ip) + real (digitsVal fp) / 10 ^ length fp)
                       (exponentPart r2)))"

definition parseFloat :: "jsstring \<Rightarrow> number" where
  "parseFloat s =
     (case dropWhile isWhiteSpace s of
        [] \<Rightarrow> NaN
      | c # r \<Rightarrow>
          if c = 0x2D then num_neg (parseUnsigned r)
          else if c = 0x2B then parseUnsigned r
          else parseUnsigned (c # r))"

section \<open>The calculator screen\<close>

text \<open>
  The state of the component \<open>MutualFundCalculator\<close>: the three text fields, the three
  nullable results and the flag.
\<close>

record screen =
  monthlyInvestment :: jsstring
  annualRate :: jsstring
  tenureYears :: jsstring
  futureValue :: "number option"
  totalInvested :: "number option"
  estimatedReturns :: "number option"
  isCalculated :: bool

definition initialScreen :: screen where
  "initialScreen =
     \<lparr>monthlyInvestment = [], annualRate = [], tenureYears = [],
      futureValue = None, totalInvested = None, estimatedReturns = None,
      isCalculated = False\<rparr>"

text \<open>What the handler does besides updating the state.\<close>

datatype effect = KeyboardDismiss | AlertAlert jsstring jsstring

definition calculateSIP :: "screen \<Rightarrow> effect list \<times> screen" where
  "calculateSIP s =
     (let P = parseFloat (monthlyInvestment s);
          rate = parseFloat (annualRate s);
          years = parseFloat (tenureYears s)
      in if isNaN P \<or> num_le P (Fin 0) \<or> isNaN rate \<or> num_lt rate (Fin 0) \<or>
            isNaN years \<or> num_le years (Fin 0)
         then
           ([KeyboardDismiss,
             AlertAlert (js ''Invalid Input'')
               (js ''Please enter valid positive numbers for all fields.'')],
            s\<lparr>isCalculated := False, futureValue := None, totalInvested := None,
              estimatedReturns := None\<rparr>)
         else
           let i = num_div (num_div rate (Fin 12)) (Fin 100);
               n = num_mul years (Fin 12);
               calculatedFV =
                 num_mul P (num_div (num_sub (Math_pow (num_add (Fin 1) i) n) (Fin 1)) i);
               calculatedTotalInvested = num_mul P n;
               calculatedEstimatedReturns = num_sub calculatedFV calculatedTotalInvested
           in ([KeyboardDismiss],
               s\<lparr>futureValue := Some calculatedFV,
                 totalInvested := Some calculatedTotalInvested,
                 estimatedReturns := Some calculatedEstimatedReturns,
                 isCalculated := True\<rparr>))"

text \<open>The condition under which the results section is rendered.\<close>

definition resultsRendered :: "screen \<Rightarrow> bool" where
  "resultsRendered s \<longleftrightarrow>
     isCalculated s \<and> futureValue s \<noteq> None \<and> totalInvested s \<noteq> None \<and>
     estimatedReturns s \<noteq> None"

text \<open>The alert the handler raises on invalid input.\<close>

definition invalidInputAlert :: effect where
  "invalidInputAlert =
     AlertAlert (js ''Invalid Input'')
       (js ''Please enter valid positive numbers for all fields.'')"

text \<open>A fresh screen after the user has typed the three texts.\<close>

definition typed :: "string \<Rightarrow> string \<Rightarrow> string \<Rightarrow> screen" where
  "typed m a t =
     initialScreen\<lparr>monthlyInvestment := js m, annualRate := js a, tenureYears := js t\<rparr>"


text \<open>A finite number: neither \<open>NaN\<close> nor an infinity.\<close>

definition isFiniteNumber :: "number \<Rightarrow> bool" where
  "isFiniteNumber v = (case v of Fin x \<Rightarrow> True | _ \<Rightarrow> False)"

section \<open>The numeric literals that parseFloat reads\<close>







section \<open>Formatting a result\<close>

definition digitChar :: "nat \<Rightarrow> jschar" where
  "digitChar d = of_nat (48 + d)"

text \<open>The decimal digits of a natural number, most significant first; \<open>0\<close> for zero.\<close>

fun decimalDigits :: "nat \<Rightarrow> jsstring" where
  "decimalDigits n =
     (if n < 10 then [digitChar n] else decimalDigits (n div 10) @ [digitChar (n mod 10)])"

declare decimalDigits.simps [simp del]

text \<open>
  \<open>value.toFixed(2)\<close>. A value that is not finite gives its name. Otherwise the sign
  is split off, and for a magnitude below \<open>10^21\<close> the integer \<open>n\<close> nearest to a
  hundred times the magnitude is taken (the larger of two equally near), its digits are
  padded with zeros to three at least, and a point is put before the last two. For a
  magnitude of \<open>10^21\<close> or more the language prints the number in its general format,
  which depends on the double-precision representation: that text is the parameter
  \<open>toString\<close>.
\<close>

definition toFixed2 :: "(real \<Rightarrow> jsstring) \<Rightarrow> number \<Rightarrow> jsstring" where
  "toFixed2 toString v =
     (case v of
        NaN \<Rightarrow> js ''NaN''
      | PosInf \<Rightarrow> js ''Infinity''
      | NegInf \<Rightarrow> js ''-Infinity''
      | Fin x0 \<Rightarrow>
          let s = (if x0 < 0 then js ''-'' else []);
              x = (if x0 < 0 then - x0 else x0)
          in if 10 ^ 21 \<le> x then s @ toString x
             else
               let n = nat \<lfloor>x * 100 + 1 / 2\<rfloor>;
                   m0 = decimalDigits n;
                   m = (if length m0 \<le> 2 then replicate (3 - length m0) 0x30 @ m0 else m0);
                   k = length m
               in s @ take (k - 2) m @ js ''.'' @ drop (k - 2) m)"

text \<open>A word character of a regular expression: a letter, a digit or the underscore.\<close>

definition isWordChar :: "jschar \<Rightarrow> bool" where
  "isWordChar c \<longleftrightarrow>
     (0x41 \<le> c \<and> c \<le> 0x5A) \<or> (0x61 \<le> c \<and> c \<le> 0x7A) \<or> isDigit c \<or> c = 0x5F"

text \<open>
  The lookahead \<open>(?=(\d{3})+(?!\d))\<close> at the start of the rest of the string: one or
  more groups of three digits, not followed by a digit.
\<close>

fun groupLookahead :: "jsstring \<Rightarrow> bool" where
  "groupLookahead (a # b # c # r) =
     (isDigit a \<and> isDigit b \<and> isDigit c \<and>
      (groupLookahead r \<or> (case r of [] \<Rightarrow> True | d # r' \<Rightarrow> \<not> isDigit d)))"
| "groupLookahead r = False"

text \<open>
  \<open>replace(/\B(?=(\d{3})+(?!\d))/g, ',')\<close>: a comma is inserted at every position
  that is not a word boundary (the characters before and after are both word characters
  or both not, the ends of the string counting as not) and where the lookahead holds.
  The first argument tells whether the character before the position is a word
  character. At the end of the string the lookahead fails.
\<close>

fun insertCommas :: "bool \<Rightarrow> jsstring \<Rightarrow> jsstring" where
  "insertCommas prevWord [] = []"
| "insertCommas prevWord (c # cs) =
     (if prevWord = isWordChar c \<and> groupLookahead (c # cs)
      then 0x2C # c # insertCommas (isWordChar c) cs
      else c # insertCommas (isWordChar c) cs)"

text \<open>The helper \<open>formatCurrency\<close> of the component; \<open>0x20B9\<close> is the rupee sign.\<close>

definition formatCurrency :: "(real \<Rightarrow> jsstring) \<Rightarrow> number option \<Rightarrow> jsstring" where
  "formatCurrency toString value =
     (case value of
        None \<Rightarrow> 0x20B9 # js '' 0.00''
      | Some v \<Rightarrow>
          if isNaN v then 0x20B9 # js '' 0.00''
          else 0x20B9 # js '' '' @ insertCommas False (toFixed2 toString v))"

subsection \<open>What the contract of the presenter asks for\<close>

text \<open>
  Thousands grouping as the contract words it: the digits in groups of three counted
  from the right, a comma between two groups.
\<close>

fun groupFromRight :: "jsstring \<Rightarrow> jsstring" where
  "groupFromRight (a # b # c # d # r) = a # b # c # 0x2C # groupFromRight (d # r)"
| "groupFromRight r = r"

definition thousandsGrouped :: "jsstring \<Rightarrow> jsstring" where
  "thousandsGrouped ds = rev (groupFromRight (rev ds))"

text \<open>The magnitude of an amount in hundredths, rounded to the nearest, a half upwards.\<close>

definition cents :: "real \<Rightarrow> nat" where
  "cents x = nat \<lfloor>\<bar>x\<bar> * 100 + 1 / 2\<rfloor>"


section \<open>Properties of the handler\<close>

subsection \<open>Evaluating the parser and the screen\<close>

lemmas parse_simps =
  parseFloat_def parseUnsigned_def exponentPart_def scale10_def digitsVal_def digitVal_def
  isDigit_def isWhiteSpace_def js_def

lemma typed_fields:
  "monthlyInvestment (typed m a t) = js m"
  "annualRate (typed m a t) = js a"
  "tenureYears (typed m a t) = js t"
  "futureValue (typed m a t) = None"
  "totalInvested (typed m a t) = None"
  "estimatedReturns (typed m a t) = None"
  "isCalculated (typed m a t) = False"
  by (simp_all add: typed_def initialScreen_def)

lemma parse_1000: "parseFloat (js ''1000'') = Fin 1000"
  by (simp add: parse_simps)

lemma parse_0: "parseFloat (js ''0'') = Fin 0"
  by (simp add: parse_simps)

lemma parse_5: "parseFloat (js ''5'') = Fin 5"
  by (simp add: parse_simps)

lemma parse_5000: "parseFloat (js ''5000'') = Fin 5000"
  by (simp add: parse_simps)

lemma parse_12: "parseFloat (js ''12'') = Fin 12"
  by (simp add: parse_simps)

lemma parse_10: "parseFloat (js ''10'') = Fin 10"
  by (simp add: parse_simps)

lemma parse_abc: "parseFloat (js ''abc'') = NaN"
  by (simp add: parse_simps)

lemma parse_empty: "parseFloat (js '''') = NaN"
  by (simp add: parse_simps)

lemma parse_Infinity: "parseFloat (js ''Infinity'') = PosInf"
  by (simp add: parse_simps)

lemma parse_minus_5: "parseFloat (js ''-5'') = Fin (- 5)"
  by (simp add: parse_simps)

lemma parse_minus_1: "parseFloat (js ''-1'') = Fin (- 1)"
  by (simp add: parse_simps)









subsection \<open>The two branches of the handler\<close>

lemma calculateSIP_reject:
  assumes "isNaN (parseFloat (monthlyInvestment s)) \<or>
           num_le (parseFloat (monthlyInvestment s)) (Fin 0) \<or>
           isNaN (parseFloat (annualRate s)) \<or>
           num_lt (parseFloat (annualRate s)) (Fin 0) \<or>
           isNaN (parseFloat (tenureYears s)) \<or>
           num_le (parseFloat (tenureYears s)) (Fin 0)"
  shows "calculateSIP s =
     ([KeyboardDismiss, invalidInputAlert],
      s\<lparr>isCalculated := False, futureValue := None, totalInvested := None,
        estimatedReturns := None\<rparr>)"
  using assms unfolding calculateSIP_def invalidInputAlert_def Let_def
  by (simp only: if_True)

lemma calculateSIP_accept:
  assumes "\<not> (isNaN (parseFloat (monthlyInvestment s)) \<or>
              num_le (parseFloat (monthlyInvestment s)) (Fin 0) \<or>
              isNaN (parseFloat (annualRate s)) \<or>
              num_lt (parseFloat (annualRate s)) (Fin 0) \<or>
              isNaN (parseFloat (tenureYears s)) \<or>
              num_le (parseFloat (tenureYears s)) (Fin 0))"
  shows "calculateSIP s =
     (let P = parseFloat (monthlyInvestment s);
          rate = parseFloat (annualRate s);
          years = parseFloat (tenureYears s);
          i = num_div (num_div rate (Fin 12)) (Fin 100);
          n = num_mul years (Fin 12);
          fv = num_mul P (num_div (num_sub (Math_pow (num_add (Fin 1) i) n) (Fin 1)) i)
      in ([KeyboardDismiss],
          s\<lparr>futureValue := Some fv, totalInvested := Some (num_mul P n),
            estimatedReturns := Some (num_sub fv (num_mul P n)), isCalculated := True\<rparr>))"
  using assms unfolding calculateSIP_def Let_def
  by (simp only: if_False)

lemma shown_scenario1:
  "isCalculated (snd (calculateSIP (typed ''5000'' ''12'' ''10''))) \<and>
   futureValue (snd (calculateSIP (typed ''5000'' ''12'' ''10''))) \<noteq> None \<and>
   totalInvested (snd (calculateSIP (typed ''5000'' ''12'' ''10''))) \<noteq> None \<and>
   estimatedReturns (snd (calculateSIP (typed ''5000'' ''12'' ''10''))) \<noteq> None"
  by (simp add: calculateSIP_def Let_def typed_fields parse_5000 parse_12 parse_10)

subsection \<open>What the outcome depends on\<close>





subsection \<open>Inputs that pass the check, infinite ones included\<close>

lemma positive_cases:
  assumes "num_lt (Fin 0) v"
  obtains x where "v = Fin x" "0 < x" | "v = PosInf"
  using assms by (cases v) auto

lemma positive_accepted:
  assumes "num_lt (Fin 0) v"
  shows "\<not> isNaN v \<and> \<not> num_le v (Fin 0) \<and> \<not> num_lt v (Fin 0)"
  using assms by (cases v) auto

lemma calculateSIP_valid:
  assumes "num_lt (Fin 0) (parseFloat (monthlyInvestment s))"
    and "\<not> isNaN (parseFloat (annualRate s))"
    and "\<not> num_lt (parseFloat (annualRate s)) (Fin 0)"
    and "num_lt (Fin 0) (parseFloat (tenureYears s))"
  shows "calculateSIP s =
     (let P = parseFloat (monthlyInvestment s);
          rate = parseFloat (annualRate s);
          years = parseFloat (tenureYears s);
          i = num_div (num_div rate (Fin 12)) (Fin 100);
          n = num_mul years (Fin 12);
          fv = num_mul P (num_div (num_sub (Math_pow (num_add (Fin 1) i) n) (Fin 1)) i)
      in ([KeyboardDismiss],
          s\<lparr>futureValue := Some fv, totalInvested := Some (num_mul P n),
            estimatedReturns := Some (num_sub fv (num_mul P n)), isCalculated := True\<rparr>))"
  using positive_accepted [OF assms(1)] positive_accepted [OF assms(4)] assms(2,3)
  by (intro calculateSIP_accept) simp

lemma zero_rate_quotient:
  assumes "num_lt (Fin 0) years"
  shows "num_div (num_sub (Math_pow (num_add (Fin 1) (num_div (num_div (Fin 0) (Fin 12)) (Fin 100)))
           (num_mul years (Fin 12))) (Fin 1)) (num_div (num_div (Fin 0) (Fin 12)) (Fin 100)) = NaN"
  using assms
  by (cases rule: positive_cases) (simp_all add: num_sub_def real_pow_def signed_inf_def)

lemma num_mul_NaN_right: "num_mul v NaN = NaN"
  by (cases v) simp_all

subsection \<open>The parser reads the longest literal\<close>
























subsection \<open>The digits of an amount and their grouping\<close>

lemma isDigit_digitChar:
  assumes "d < 10"
  shows "isDigit (digitChar d)"
proof -
  have "unat (of_nat (48 + d) :: 16 word) = 48 + d"
    using assms by (simp only: unat_of_nat) simp
  then show ?thesis
    using assms unfolding isDigit_def digitChar_def word_le_nat_alt by simp
qed

lemma digitChar_0: "digitChar 0 = 0x30"
  by (simp add: digitChar_def)

lemma decimalDigits_small: "n < 10 \<Longrightarrow> decimalDigits n = [digitChar n]"
  by (simp add: decimalDigits.simps)

lemma decimalDigits_step:
  "10 \<le> n \<Longrightarrow> decimalDigits n = decimalDigits (n div 10) @ [digitChar (n mod 10)]"
  by (subst decimalDigits.simps) simp

lemma decimalDigits_nonempty: "decimalDigits n \<noteq> []"
  by (subst decimalDigits.simps) simp

lemma decimalDigits_isDigit: "c \<in> set (decimalDigits n) \<Longrightarrow> isDigit c"
proof (induction n arbitrary: c rule: decimalDigits.induct)
  case (1 n)
  show ?case
  proof (cases "n < 10")
    case True
    with "1.prems" show ?thesis
      by (auto simp: decimalDigits_small isDigit_digitChar)
  next
    case False
    with "1.prems" "1.IH" show ?thesis
      by (auto simp: decimalDigits_step isDigit_digitChar)
  qed
qed

text \<open>The padded digits of the hundredths split into the whole part and two decimals.\<close>

lemma toFixed_split:
  fixes n :: nat
  defines "m0 \<equiv> decimalDigits n"
  defines "m \<equiv> (if length m0 \<le> 2 then replicate (3 - length m0) 0x30 @ m0 else m0)"
  shows "take (length m - 2) m = decimalDigits (n div 100) \<and>
         drop (length m - 2) m = [digitChar (n div 10 mod 10), digitChar (n mod 10)]"
proof -
  consider "n < 10" | "10 \<le> n" "n < 100" | "100 \<le> n"
    by linarith
  then show ?thesis
  proof cases
    case 1
    then have "m0 = [digitChar n]"
      by (simp add: m0_def decimalDigits_small)
    with 1 show ?thesis
      by (simp add: m_def decimalDigits_small digitChar_0 numeral_3_eq_3)
  next
    case 2
    then have "m0 = [digitChar (n div 10), digitChar (n mod 10)]"
      by (simp add: m0_def decimalDigits_step decimalDigits_small)
    with 2 show ?thesis
      by (simp add: m_def decimalDigits_small digitChar_0)
  next
    case 3
    then have d: "10 \<le> n" "10 \<le> n div 10"
      by simp_all
    have e: "n div 10 div 10 = n div 100"
      by (simp add: div_mult2_eq [symmetric])
    have "m0 = decimalDigits (n div 100) @ [digitChar (n div 10 mod 10), digitChar (n mod 10)]"
      using decimalDigits_step [OF d(1)] decimalDigits_step [OF d(2)]
      by (simp add: m0_def e)
    moreover have "decimalDigits (n div 100) \<noteq> []"
      by (rule decimalDigits_nonempty)
    ultimately show ?thesis
      by (simp add: m_def)
  qed
qed

lemma groupLookahead_digits:
  assumes "\<forall>c \<in> set ds. isDigit c"
    and "case t of [] \<Rightarrow> True | c # r \<Rightarrow> \<not> isDigit c"
  shows "groupLookahead (ds @ t) \<longleftrightarrow> ds \<noteq> [] \<and> length ds mod 3 = 0"
  using assms
proof (induction ds rule: groupLookahead.induct)
  case (1 a b c r)
  have ih: "groupLookahead (r @ t) \<longleftrightarrow> r \<noteq> [] \<and> length r mod 3 = 0"
    using 1 by simp
  have hd: "(case r @ t of [] \<Rightarrow> True | d # r' \<Rightarrow> \<not> isDigit d) \<longleftrightarrow> r = []"
    using 1(2,3) by (cases r) (auto split: list.splits)
  show ?case
    using 1(2) ih hd by auto
qed (cases t rule: groupLookahead.cases; auto)+

lemma mod3_shift: "(4 + k) mod 3 = Suc k mod (3::nat)"
  by presburger

lemma groupFromRight_snoc:
  "groupFromRight (ys @ [c]) =
     groupFromRight ys @ (if ys \<noteq> [] \<and> length ys mod 3 = 0 then [0x2C, c] else [c])"
  by (induction ys rule: groupFromRight.induct) (auto simp: mod3_shift)

lemma thousandsGrouped_Cons:
  "thousandsGrouped (c # cs) =
     c # (if cs \<noteq> [] \<and> length cs mod 3 = 0 then [0x2C] else []) @ thousandsGrouped cs"
  by (simp add: thousandsGrouped_def groupFromRight_snoc)

lemma isWordChar_digit: "isDigit c \<Longrightarrow> isWordChar c"
  by (simp add: isWordChar_def)

lemma insertCommas_decimals:
  "insertCommas p [0x2E, a, b] = [0x2E, a, b]"
  by (simp add: isDigit_def)

lemma insertCommas_after_digit:
  assumes "\<forall>c \<in> set ds. isDigit c"
  shows "insertCommas True (ds @ [0x2E, a, b]) =
     (if ds \<noteq> [] \<and> length ds mod 3 = 0 then [0x2C] else []) @
     thousandsGrouped ds @ [0x2E, a, b]"
  using assms
proof (induction ds)
  case Nil
  show ?case
    by (simp add: insertCommas_decimals thousandsGrouped_def del: insertCommas.simps)
next
  case (Cons c cs)
  have t: "case [0x2E, a, b] of [] \<Rightarrow> True | c # r \<Rightarrow> \<not> isDigit c"
    by (simp add: isDigit_def)
  have la: "groupLookahead ((c # cs) @ [0x2E, a, b]) \<longleftrightarrow> length (c # cs) mod 3 = 0"
    using groupLookahead_digits [OF Cons.prems t] by simp
  have w: "isWordChar c"
    using Cons.prems by (simp add: isWordChar_digit)
  have ih: "insertCommas True (cs @ [0x2E, a, b]) =
     (if cs \<noteq> [] \<and> length cs mod 3 = 0 then [0x2C] else []) @
     thousandsGrouped cs @ [0x2E, a, b]"
    using Cons by simp
  show ?case
    using la w ih by (simp add: thousandsGrouped_Cons del: groupLookahead.simps)
qed

lemma insertCommas_number:
  assumes "\<forall>c \<in> set ds. isDigit c" "ds \<noteq> []"
  shows "insertCommas False (ds @ [0x2E, a, b]) = thousandsGrouped ds @ [0x2E, a, b]"
proof -
  obtain c cs where ds: "ds = c # cs"
    using assms(2) by (cases ds) auto
  have w: "isWordChar c"
    using assms(1) ds by (simp add: isWordChar_digit)
  have "\<forall>c \<in> set cs. isDigit c"
    using assms(1) ds by simp
  from insertCommas_after_digit [OF this, of a b] w show ?thesis
    by (simp add: ds thousandsGrouped_Cons del: groupLookahead.simps)
qed

lemma insertCommas_minus:
  "insertCommas False (0x2D # r) = 0x2D # insertCommas False r"
  by (cases r rule: groupLookahead.cases) (simp_all add: isWordChar_def isDigit_def)


lemma toFixed2_finite:
  assumes "\<bar>x\<bar> < 10 ^ 21"
  shows "toFixed2 toString (Fin x) =
     (if x < 0 then [0x2D] else []) @ decimalDigits (cents x div 100) @
     [0x2E, digitChar (cents x div 10 mod 10), digitChar (cents x mod 10)]"
proof -
  have small: "\<not> 10 ^ 21 \<le> (if x < 0 then - x else x)"
    using assms by (simp add: abs_if split: if_splits)
  have n: "nat \<lfloor>(if x < 0 then - x else x) * 100 + 1 / 2\<rfloor> = cents x"
    by (simp add: cents_def abs_if)
  show ?thesis
    unfolding toFixed2_def Let_def number.case if_not_P [OF small] n
    using toFixed_split [of "cents x"]
    by (simp add: js_def)
qed

section \<open>The claims\<close>

text \<open>
  Claim C1 (zero rate). The claim asks that at an annual rate of zero the future value be
  the amount invested, \<open>P * n\<close>, and the estimated returns be zero. The handler has no
  branch for the rate zero: it evaluates the general quotient, which is \<open>0 / 0\<close>
  there. For every amount and tenure that pass the check, with the rate zero, it raises
  no alert and the future value and the estimated returns it stores are \<open>NaN\<close>; only
  the amount invested is \<open>P * n\<close>.
\<close>

theorem calculateSIP_zero_rate:
  assumes "num_lt (Fin 0) (parseFloat (monthlyInvestment s))"
    and "parseFloat (annualRate s) = Fin 0"
    and "num_lt (Fin 0) (parseFloat (tenureYears s))"
  shows "fst (calculateSIP s) = [KeyboardDismiss] \<and>
         futureValue (snd (calculateSIP s)) = Some NaN \<and>
         totalInvested (snd (calculateSIP s)) =
           Some (num_mul (parseFloat (monthlyInvestment s))
                  (num_mul (parseFloat (tenureYears s)) (Fin 12))) \<and>
         estimatedReturns (snd (calculateSIP s)) = Some NaN"
proof -
  have r: "\<not> isNaN (parseFloat (annualRate s))" "\<not> num_lt (parseFloat (annualRate s)) (Fin 0)"
    by (simp_all add: assms(2))
  show ?thesis
    unfolding calculateSIP_valid [OF assms(1) r assms(3)] Let_def assms(2)
      zero_rate_quotient [OF assms(3)]
    by (simp add: num_mul_NaN_right num_sub_def)
qed

theorem calculateSIP_zero_rate_witness:
  "num_lt (Fin 0) (parseFloat (monthlyInvestment (typed ''1000'' ''0'' ''5''))) \<and>
   parseFloat (annualRate (typed ''1000'' ''0'' ''5'')) = Fin 0 \<and>
   num_lt (Fin 0) (parseFloat (tenureYears (typed ''1000'' ''0'' ''5''))) \<and>
   fst (calculateSIP (typed ''1000'' ''0'' ''5'')) = [KeyboardDismiss] \<and>
   futureValue (snd (calculateSIP (typed ''1000'' ''0'' ''5''))) = Some NaN \<and>
   totalInvested (snd (calculateSIP (typed ''1000'' ''0'' ''5''))) = Some (Fin 60000) \<and>
   estimatedReturns (snd (calculateSIP (typed ''1000'' ''0'' ''5''))) = Some NaN"
  using calculateSIP_zero_rate [of "typed ''1000'' ''0'' ''5''"]
  by (simp add: typed_fields parse_1000 parse_0 parse_5)

text \<open>
  Claim C2 (validation). As stated, validation fails exactly when a text does not parse
  as a finite number, or the amount is \<open>\<le> 0\<close>, or the rate is \<open>< 0\<close>, or the tenure
  is \<open>\<le> 0\<close>. The check of the handler tests \<open>isNaN\<close>, not finiteness: the text
  \<open>Infinity\<close> parses as the number infinity, which is not finite, and is accepted.
\<close>

theorem validation_accepts_Infinity:
  "parseFloat (monthlyInvestment (typed ''Infinity'' ''12'' ''10'')) = PosInf \<and>
   \<not> isFiniteNumber (parseFloat (monthlyInvestment (typed ''Infinity'' ''12'' ''10''))) \<and>
   fst (calculateSIP (typed ''Infinity'' ''12'' ''10'')) = [KeyboardDismiss] \<and>
   isCalculated (snd (calculateSIP (typed ''Infinity'' ''12'' ''10''))) \<and>
   futureValue (snd (calculateSIP (typed ''Infinity'' ''12'' ''10''))) = Some PosInf \<and>
   totalInvested (snd (calculateSIP (typed ''Infinity'' ''12'' ''10''))) = Some PosInf \<and>
   estimatedReturns (snd (calculateSIP (typed ''Infinity'' ''12'' ''10''))) = Some NaN"
proof -
  have lt: "(1::real) < (101 / 100) ^ 120"
    by (rule one_less_power) simp_all
  have ne: "(101 / 100 :: real) ^ 120 \<noteq> 1"
    using less_imp_neq [OF lt] by (rule not_sym)
  from lt ne show ?thesis
    by (simp add: calculateSIP_def Let_def typed_fields parse_Infinity parse_12 parse_10
        isFiniteNumber_def num_sub_def real_pow_def signed_inf_def)
qed

text \<open>
  Claim C2, amended. The handler rejects the inputs (raises the alert, leaves the flag
  false) exactly when a parsed value is \<open>NaN\<close>, or the parsed amount is \<open>\<le> 0\<close>, or the
  parsed rate is \<open>< 0\<close>, or the parsed tenure is \<open>\<le> 0\<close>; in every other case it raises
  no alert, sets the flag and computes from the parsed values as they are: the amount
  invested is the parsed amount times twelve times the parsed tenure, and the future
  value is the formula at the parsed amount, rate and tenure.
\<close>

theorem validation_outcome:
  fixes s :: screen
  defines "P \<equiv> parseFloat (monthlyInvestment s)"
    and "rate \<equiv> parseFloat (annualRate s)"
    and "years \<equiv> parseFloat (tenureYears s)"
  shows "if isNaN P \<or> num_le P (Fin 0) \<or> isNaN rate \<or> num_lt rate (Fin 0) \<or>
            isNaN years \<or> num_le years (Fin 0)
         then fst (calculateSIP s) = [KeyboardDismiss, invalidInputAlert] \<and>
              isCalculated (snd (calculateSIP s)) = False
         else fst (calculateSIP s) = [KeyboardDismiss] \<and>
              isCalculated (snd (calculateSIP s)) = True \<and>
              totalInvested (snd (calculateSIP s)) = Some (num_mul P (num_mul years (Fin 12))) \<and>
              futureValue (snd (calculateSIP s)) =
                Some (num_mul P
                  (num_div
                    (num_sub
                      (Math_pow (num_add (Fin 1) (num_div (num_div rate (Fin 12)) (Fin 100)))
                        (num_mul years (Fin 12)))
                      (Fin 1))
                    (num_div (num_div rate (Fin 12)) (Fin 100))))"
proof (cases "isNaN P \<or> num_le P (Fin 0) \<or> isNaN rate \<or> num_lt rate (Fin 0) \<or>
            isNaN years \<or> num_le years (Fin 0)")
  case True
  then show ?thesis
    using calculateSIP_reject [of s] unfolding P_def rate_def years_def by simp
next
  case False
  then show ?thesis
    using calculateSIP_accept [of s] unfolding P_def rate_def years_def
    by (simp add: Let_def)
qed

theorem validation_outcome_witness:
  "fst (calculateSIP (typed ''0'' ''12'' ''10'')) = [KeyboardDismiss, invalidInputAlert] \<and>
   fst (calculateSIP (typed ''-5'' ''12'' ''10'')) = [KeyboardDismiss, invalidInputAlert] \<and>
   fst (calculateSIP (typed ''5000'' ''-1'' ''10'')) = [KeyboardDismiss, invalidInputAlert] \<and>
   fst (calculateSIP (typed ''5000'' ''12'' ''0'')) = [KeyboardDismiss, invalidInputAlert] \<and>
   fst (calculateSIP (typed ''abc'' ''12'' ''10'')) = [KeyboardDismiss, invalidInputAlert] \<and>
   fst (calculateSIP (typed ''5000'' '''' ''10'')) = [KeyboardDismiss, invalidInputAlert] \<and>
   fst (calculateSIP (typed ''5000'' ''12'' ''10'')) = [KeyboardDismiss] \<and>
   totalInvested (snd (calculateSIP (typed ''5000'' ''12'' ''10''))) = Some (Fin 600000)"
  using validation_outcome [of "typed ''0'' ''12'' ''10''"]
    validation_outcome [of "typed ''-5'' ''12'' ''10''"]
    validation_outcome [of "typed ''5000'' ''-1'' ''10''"]
    validation_outcome [of "typed ''5000'' ''12'' ''0''"]
    validation_outcome [of "typed ''abc'' ''12'' ''10''"]
    validation_outcome [of "typed ''5000'' '''' ''10''"]
    validation_outcome [of "typed ''5000'' ''12'' ''10''"]
  by (simp add: typed_fields parse_0 parse_12 parse_10 parse_5000 parse_minus_5 parse_minus_1
      parse_abc parse_empty)

text \<open>
  Claim C5 (the presenter). As stated, \<open>formatCurrency\<close> returns the zero amount for
  null and for every number that is not finite. The helper tests \<open>isNaN\<close> only: an
  infinity is printed by name.
\<close>

theorem formatCurrency_Infinity:
  "\<not> isFiniteNumber PosInf \<and>
   formatCurrency (\<lambda>x. []) (Some PosInf) = 0x20B9 # js '' Infinity'' \<and>
   formatCurrency (\<lambda>x. []) (Some PosInf) \<noteq> 0x20B9 # js '' 0.00''"
  by (simp add: isFiniteNumber_def formatCurrency_def toFixed2_def js_def isWordChar_def
      isDigit_def)

text \<open>
  Claim C5, amended. Given null or \<open>NaN\<close> the helper returns the rupee sign, a space and
  \<open>0.00\<close>. Given a finite number of magnitude below \<open>10^21\<close> it returns the rupee
  sign, a space, a minus sign if the number is negative, the digits of the whole part
  grouped in threes by commas, a point and exactly two decimals, the amount being rounded
  to the nearest hundredth. It is defined on every input.
\<close>

theorem formatCurrency_contract:
  "formatCurrency toString None = 0x20B9 # js '' 0.00'' \<and>
   formatCurrency toString (Some NaN) = 0x20B9 # js '' 0.00'' \<and>
   (\<bar>x\<bar> < 10 ^ 21 \<longrightarrow>
    formatCurrency toString (Some (Fin x)) =
      [0x20B9, 0x20] @ (if x < 0 then [0x2D] else []) @
      thousandsGrouped (decimalDigits (cents x div 100)) @
      [0x2E, digitChar (cents x div 10 mod 10), digitChar (cents x mod 10)])"
proof (intro conjI impI)
  show "formatCurrency toString None = 0x20B9 # js '' 0.00''"
    by (simp add: formatCurrency_def)
  show "formatCurrency toString (Some NaN) = 0x20B9 # js '' 0.00''"
    by (simp add: formatCurrency_def)
next
  assume x: "\<bar>x\<bar> < 10 ^ 21"
  have dig: "\<forall>c \<in> set (decimalDigits (cents x div 100)). isDigit c"
    using decimalDigits_isDigit by blast
  note body = insertCommas_number [OF dig decimalDigits_nonempty]
  have "insertCommas False (toFixed2 toString (Fin x)) =
      (if x < 0 then [0x2D] else []) @
      thousandsGrouped (decimalDigits (cents x div 100)) @
      [0x2E, digitChar (cents x div 10 mod 10), digitChar (cents x mod 10)]"
    unfolding toFixed2_finite [OF x]
    by (simp add: insertCommas_minus body del: insertCommas.simps)
  then show "formatCurrency toString (Some (Fin x)) =
      [0x20B9, 0x20] @ (if x < 0 then [0x2D] else []) @
      thousandsGrouped (decimalDigits (cents x div 100)) @
      [0x2E, digitChar (cents x div 10 mod 10), digitChar (cents x mod 10)]"
    by (simp add: formatCurrency_def js_def)
qed

theorem formatCurrency_contract_witness:
  "\<bar>116169538 / 100 :: real\<bar> < 10 ^ 21 \<and>
   formatCurrency (\<lambda>x. []) (Some (Fin (116169538 / 100))) = 0x20B9 # js '' 1,161,695.38'' \<and>
   formatCurrency (\<lambda>x. []) None = 0x20B9 # js '' 0.00''"
  using formatCurrency_contract [of "\<lambda>x. []" "116169538 / 100"]
  by (simp add: cents_def thousandsGrouped_def decimalDigits.simps digitChar_def js_def)

text \<open>
  Claim C7 (invalid input clears the result). Whenever the check of the handler rejects
  the inputs, the state it leaves has the three results null and the flag false, so no
  results section is rendered, whatever the state before; the alert is raised.
\<close>

theorem invalid_input_clears_result:
  assumes "isNaN (parseFloat (monthlyInvestment s)) \<or>
           num_le (parseFloat (monthlyInvestment s)) (Fin 0) \<or>
           isNaN (parseFloat (annualRate s)) \<or>
           num_lt (parseFloat (annualRate s)) (Fin 0) \<or>
           isNaN (parseFloat (tenureYears s)) \<or>
           num_le (parseFloat (tenureYears s)) (Fin 0)"
  shows "futureValue (snd (calculateSIP s)) = None \<and>
         totalInvested (snd (calculateSIP s)) = None \<and>
         estimatedReturns (snd (calculateSIP s)) = None \<and>
         isCalculated (snd (calculateSIP s)) = False \<and>
         resultsRendered (snd (calculateSIP s)) = False \<and>
         invalidInputAlert \<in> set (fst (calculateSIP s))"
  by (simp add: calculateSIP_reject [OF assms] resultsRendered_def)

theorem invalid_input_clears_result_witness:
  "resultsRendered (snd (calculateSIP (typed ''5000'' ''12'' ''10''))) \<and>
   isNaN (parseFloat (monthlyInvestment
     ((snd (calculateSIP (typed ''5000'' ''12'' ''10'')))\<lparr>monthlyInvestment := js ''abc''\<rparr>))) \<and>
   futureValue (snd (calculateSIP
     ((snd (calculateSIP (typed ''5000'' ''12'' ''10'')))\<lparr>monthlyInvestment := js ''abc''\<rparr>))) = None \<and>
   totalInvested (snd (calculateSIP
     ((snd (calculateSIP (typed ''5000'' ''12'' ''10'')))\<lparr>monthlyInvestment := js ''abc''\<rparr>))) = None \<and>
   estimatedReturns (snd (calculateSIP
     ((snd (calculateSIP (typed ''5000'' ''12'' ''10'')))\<lparr>monthlyInvestment := js ''abc''\<rparr>))) = None \<and>
   isCalculated (snd (calculateSIP
     ((snd (calculateSIP (typed ''5000'' ''12'' ''10'')))\<lparr>monthlyInvestment := js ''abc''\<rparr>))) = False"
  using invalid_input_clears_result
    [of "(snd (calculateSIP (typed ''5000'' ''12'' ''10'')))\<lparr>monthlyInvestment := js ''abc''\<rparr>"]
    shown_scenario1
  by (simp add: parse_abc resultsRendered_def)



text \<open>
  Claim C9 (no partial result). After every calculate action either the flag is true and
  the three results are all non-null, or the flag is false and the three are all null;
  the results section is rendered exactly in the former state.
\<close>

theorem result_state_never_partial:
  "(isCalculated (snd (calculateSIP s)) \<and>
    futureValue (snd (calculateSIP s)) \<noteq> None \<and>
    totalInvested (snd (calculateSIP s)) \<noteq> None \<and>
    estimatedReturns (snd (calculateSIP s)) \<noteq> None
    \<or>
    isCalculated (snd (calculateSIP s)) = False \<and>
    futureValue (snd (calculateSIP s)) = None \<and>
    totalInvested (snd (calculateSIP s)) = None \<and>
    estimatedReturns (snd (calculateSIP s)) = None) \<and>
   resultsRendered (snd (calculateSIP s)) = isCalculated (snd (calculateSIP s))"
proof (cases "isNaN (parseFloat (monthlyInvestment s)) \<or>
              num_le (parseFloat (monthlyInvestment s)) (Fin 0) \<or>
              isNaN (parseFloat (annualRate s)) \<or>
              num_lt (parseFloat (annualRate s)) (Fin 0) \<or>
              isNaN (parseFloat (tenureYears s)) \<or>
              num_le (parseFloat (tenureYears s)) (Fin 0)")
  case True
  show ?thesis
    by (simp add: calculateSIP_reject [OF True] resultsRendered_def)
next
  case False
  show ?thesis
    by (simp add: calculateSIP_accept [OF False] resultsRendered_def Let_def)
qed



end
